theory Spec2Isabelle
  imports Complex_Main "HOL-Library.Multiset"
begin

section \<open>Python exceptions\<close>

text \<open>
  An exception is its class name and its message. A function that may raise returns
  \<open>exn + 'a\<close>, with \<open>Inl\<close> for the exception.
\<close>

datatype exn = Exn (exn_class: string) (exn_msg: string)

definition ValueError :: "string \<Rightarrow> exn" where
  "ValueError msg = Exn ''ValueError'' msg"

definition AttributeError :: "string \<Rightarrow> exn" where
  "AttributeError msg = Exn ''AttributeError'' msg"

definition TypeError :: "string \<Rightarrow> exn" where
  "TypeError msg = Exn ''TypeError'' msg"

definition IndexError :: "string \<Rightarrow> exn" where
  "IndexError msg = Exn ''IndexError'' msg"

definition KeyError :: "string \<Rightarrow> exn" where
  "KeyError msg = Exn ''KeyError'' msg"

definition ZeroDivisionError :: "string \<Rightarrow> exn" where
  "ZeroDivisionError msg = Exn ''ZeroDivisionError'' msg"

definition CircuitError :: "string \<Rightarrow> exn" where
  "CircuitError msg = Exn ''CircuitError'' msg"

definition QiskitError :: "string \<Rightarrow> exn" where
  "QiskitError msg = Exn ''QiskitError'' msg"

text \<open>
  Reading \<open>self._num_evaluation_qubits\<close> when \<open>__init__\<close> never assigned it. The
  messages of the interpreter's own errors are written without their quotation marks.
\<close>

definition no_num_evaluation_qubits :: exn where
  "no_num_evaluation_qubits =
     AttributeError ''PhaseEstimation object has no attribute _num_evaluation_qubits''"

text \<open>Reading \<open>self._quantum_instance.is_statevector\<close> when the instance is \<open>None\<close>.\<close>

definition no_is_statevector :: exn where
  "no_is_statevector =
     AttributeError ''NoneType object has no attribute is_statevector''"

definition no_execute :: exn where
  "no_execute = AttributeError ''NoneType object has no attribute execute''"

section \<open>Circuits\<close>

text \<open>
  A circuit's \<open>data\<close> is a list of instructions, each an operation with the qubit and
  classical-bit indices it acts on. Qubit counts and register sizes are natural numbers.
\<close>

datatype operation =
    Gate string
  | Barrier
  | Measure
  | PhaseEstimationGate nat "instruction list"
and instruction =
    Instruction (operation: operation) (qargs: "nat list") (cargs: "nat list")

record QuantumCircuit =
  num_qubits :: nat
  cregs :: "(string \<times> nat) list"
  data :: "instruction list"

definition num_clbits :: "QuantumCircuit \<Rightarrow> nat" where
  "num_clbits c = sum_list (map snd (cregs c))"

text \<open>
  Modelled from the spec: \<open>qiskit.circuit.library.PhaseEstimation\<close> is not among the
  sources. The spec: "Builds an evaluation register of the configured width, composes the
  unitary into a standard phase-estimation template circuit". The template has the
  evaluation register (indices \<open>0 .. n - 1\<close>) followed by the unitary's register, no
  classical register, and one block that holds the unitary's instructions.
\<close>

definition PhaseEstimation_template :: "nat \<Rightarrow> QuantumCircuit \<Rightarrow> QuantumCircuit" where
  "PhaseEstimation_template n unitary =
     \<lparr> num_qubits = n + num_qubits unitary,
       cregs = [],
       data = [Instruction (PhaseEstimationGate n (data unitary))
                 [0 ..< n + num_qubits unitary] []] \<rparr>"

text \<open>
  Modelled from the spec: \<open>QuantumCircuit.compose\<close> is not among the sources. The spec:
  "prepends the state-preparation sub-circuit (if any) onto the unitary's register range
  only" and "\<open>state_preparation\<close>, if present, must act on exactly that many qubits".
  With \<open>front=True\<close> the other circuit's instructions come first, its qubit \<open>i\<close> placed on
  \<open>qubits[i]\<close>; a list of qubits of another length than the other circuit's qubit count,
  or one that leaves the circuit, is an error of the library.
\<close>

definition remap :: "nat list \<Rightarrow> instruction \<Rightarrow> instruction" where
  "remap qubits i = Instruction (operation i) (map (\<lambda>q. qubits ! q) (qargs i)) (cargs i)"

definition compose_front ::
  "QuantumCircuit \<Rightarrow> QuantumCircuit \<Rightarrow> nat list \<Rightarrow> exn + QuantumCircuit" where
  "compose_front c other qubits =
     (if num_qubits c < num_qubits other \<or> num_clbits c < num_clbits other then
        Inl (CircuitError ''Trying to compose with another QuantumCircuit which has more in edges.'')
      else if length qubits \<noteq> num_qubits other then
        Inl (CircuitError ''Number of items in qubits parameter does not match number of qubits in the circuit.'')
      else if list_ex (\<lambda>q. num_qubits c \<le> q) qubits then
        Inl (CircuitError ''Index out of range.'')
      else Inr (c\<lparr>data := map (remap qubits) (data other) @ data c\<rparr>))"

text \<open>
  Modelled from the spec: \<open>ClassicalRegister\<close>, \<open>QuantumCircuit.add_register\<close>,
  \<open>QuantumCircuit.barrier\<close> and \<open>QuantumCircuit.measure\<close> are not among the sources. The
  spec: "appends a classical measurement register over only the evaluation qubits, with a
  separating barrier". \<open>barrier()\<close> without arguments spans every qubit;
  \<open>measure(qs, cs)\<close> measures \<open>qs[i]\<close> into classical bit \<open>cs[i]\<close>, in order.
\<close>

definition add_register :: "QuantumCircuit \<Rightarrow> string \<times> nat \<Rightarrow> QuantumCircuit" where
  "add_register c creg = c\<lparr>cregs := cregs c @ [creg]\<rparr>"

definition barrier :: "QuantumCircuit \<Rightarrow> QuantumCircuit" where
  "barrier c = c\<lparr>data := data c @ [Instruction Barrier [0 ..< num_qubits c] []]\<rparr>"

definition measure_qubits :: "QuantumCircuit \<Rightarrow> nat list \<Rightarrow> nat list \<Rightarrow> QuantumCircuit" where
  "measure_qubits c qs cs =
     c\<lparr>data := data c @ map (\<lambda>(q, b). Instruction Measure [q] [b]) (zip qs cs)\<rparr>"

section \<open>The executor and its results\<close>

text \<open>
  \<open>qiskit.result.Counts\<close> is a dictionary with two attributes. A dictionary is an
  association list in insertion order, its keys distinct.
\<close>

record 'v Counts =
  items :: "(string \<times> 'v) list"
  memory_slots :: "nat option"
  creg_sizes :: "(string \<times> nat) list option"

record ExperimentResult =
  shots :: int

text \<open>
  The result object of a run: the experiments' records, and what \<open>get_counts()\<close> and
  \<open>get_statevector()\<close> give (either may raise, depending on the executor).
\<close>

record Result =
  results :: "ExperimentResult list"
  get_counts :: "exn + int Counts"
  get_statevector :: "exn + complex list"

text \<open>The executor is an external collaborator: a flag and a function from the circuit
  to its result or its error.\<close>

record QuantumInstance =
  is_statevector :: bool
  execute :: "QuantumCircuit \<Rightarrow> exn + Result"

section \<open>The estimator object and the store\<close>

text \<open>
  The attributes of a \<open>PhaseEstimation\<close> object. \<open>num_evaluation_qubits = None\<close> is the
  object without the attribute \<open>_num_evaluation_qubits\<close>; \<open>quantum_instance = None\<close> is
  the attribute holding \<open>None\<close>. No method assigns an attribute after \<open>__init__\<close>,
  so the methods read the object and do not return it.
\<close>

record PhaseEstimation =
  measurements_added :: bool
  num_evaluation_qubits :: "nat option"
  quantum_instance :: "QuantumInstance option"

text \<open>
  The argument \<open>quantum_instance\<close> of \<open>__init__\<close> is \<open>None\<close>, a backend (wrapped by
  \<open>QuantumInstance(backend)\<close>) or a quantum instance. A backend is given by the flag and
  the run function of the instance that wraps it.
\<close>

datatype instance_arg = Backend QuantumInstance | Instance QuantumInstance

definition init :: "nat option \<Rightarrow> instance_arg option \<Rightarrow> PhaseEstimation" where
  "init n qi =
     \<lparr> measurements_added = False,
       num_evaluation_qubits = (case n of None \<Rightarrow> None | Some k \<Rightarrow> Some k),
       quantum_instance =
         (case qi of None \<Rightarrow> None
          | Some (Backend b) \<Rightarrow> Some b
          | Some (Instance q) \<Rightarrow> Some q) \<rparr>"

text \<open>
  Circuits are mutable objects shared by reference: the store holds them, a reference is
  an index into it, and a new object goes at the end. The store also logs every circuit
  handed to the executor, as it was at the call. A reference that a caller holds points
  into the store; the theorems say so where they read through one.
\<close>

type_synonym ref = nat

record world =
  heap :: "QuantumCircuit list"
  executed :: "QuantumCircuit list"

definition alloc :: "QuantumCircuit \<Rightarrow> world \<Rightarrow> ref \<times> world" where
  "alloc c w = (length (heap w), w\<lparr>heap := heap w @ [c]\<rparr>)"

definition put :: "ref \<Rightarrow> QuantumCircuit \<Rightarrow> world \<Rightarrow> world" where
  "put r c w = w\<lparr>heap := (heap w)[r := c]\<rparr>"

section \<open>Circuit Builder\<close>

text \<open>
  \<open>_add_measurement_if_required\<close> changes the circuit it is given, in place. What it
  returns is the module \<open>circuit\<close>, which no caller looks at: here it returns nothing.
\<close>

definition add_measurement_if_required ::
  "PhaseEstimation \<Rightarrow> ref \<Rightarrow> world \<Rightarrow> (exn + unit) \<times> world" where
  "add_measurement_if_required self pe_circuit w =
     (case quantum_instance self of
        None \<Rightarrow> (Inl no_is_statevector, w)
      | Some qi \<Rightarrow>
          if \<not> is_statevector qi then
            (case num_evaluation_qubits self of
               None \<Rightarrow> (Inl no_num_evaluation_qubits, w)
             | Some n \<Rightarrow>
                 let creg = (''meas'', n);
                     w1 = put pe_circuit (add_register (heap w ! pe_circuit) creg) w;
                     w2 = put pe_circuit (barrier (heap w1 ! pe_circuit)) w1;
                     w3 = put pe_circuit (measure_qubits (heap w2 ! pe_circuit) [0 ..< n] [0 ..< n]) w2
                 in (Inr (), w3))
          else (Inr (), w))"

definition compose_inplace_front ::
  "ref \<Rightarrow> ref \<Rightarrow> nat list \<Rightarrow> world \<Rightarrow> (exn + unit) \<times> world" where
  "compose_inplace_front c other qubits w =
     (case compose_front (heap w ! c) (heap w ! other) qubits of
        Inl e \<Rightarrow> (Inl e, w)
      | Inr c' \<Rightarrow> (Inr (), put c c' w))"

definition construct_circuit ::
  "PhaseEstimation \<Rightarrow> ref \<Rightarrow> ref option \<Rightarrow> world \<Rightarrow> (exn + ref) \<times> world" where
  "construct_circuit self unitary state_preparation w =
     (case num_evaluation_qubits self of
        None \<Rightarrow> (Inl no_num_evaluation_qubits, w)
      | Some n \<Rightarrow>
          (let num_unitary_qubits = num_qubits (heap w ! unitary) in
           (case alloc (PhaseEstimation_template n (heap w ! unitary)) w of
              (pe_circuit, w1) \<Rightarrow>
                (case (case state_preparation of
                         None \<Rightarrow> (Inr (), w1)
                       | Some sp \<Rightarrow>
                           compose_inplace_front pe_circuit sp
                             [n ..< n + num_unitary_qubits] w1) of
                   (Inl e, w2) \<Rightarrow> (Inl e, w2)
                 | (Inr u, w2) \<Rightarrow>
                     (case add_measurement_if_required self pe_circuit w2 of
                        (Inl e, w3) \<Rightarrow> (Inl e, w3)
                      | (Inr u', w3) \<Rightarrow> (Inr pe_circuit, w3))))))"

section \<open>Phase Post-Processor\<close>

text \<open>Python dictionaries as association lists: lookup, and assignment that keeps the
  place of a key already present and appends a new one.\<close>

fun dict_set :: "'k \<Rightarrow> 'v \<Rightarrow> ('k \<times> 'v) list \<Rightarrow> ('k \<times> 'v) list" where
  "dict_set k v [] = [(k, v)]"
| "dict_set k v (p # ps) = (if fst p = k then (k, v) # ps else p # dict_set k v ps)"

text \<open>
  The comprehension \<open>{k[::-1]: counts[k] / num_shots for k in counts.keys()}\<close>, one key
  after the other. The quotient of two integers is modelled exactly, as a rational; a
  divisor zero raises.
\<close>

fun reversed_frequencies ::
  "(string \<times> int) list \<Rightarrow> int \<Rightarrow> string list \<Rightarrow> (string \<times> rat) list
     \<Rightarrow> exn + (string \<times> rat) list" where
  "reversed_frequencies counts num_shots [] acc = Inr acc"
| "reversed_frequencies counts num_shots (k # ks) acc =
     (case map_of counts k of
        None \<Rightarrow> Inl (KeyError k)
      | Some c \<Rightarrow>
          if num_shots = 0 then Inl (ZeroDivisionError ''division by zero'')
          else reversed_frequencies counts num_shots ks
                 (dict_set (rev k) (of_int c / of_int num_shots) acc))"

text \<open>
  What the comprehension builds from a dictionary, in closed form (proved below): every
  key reversed, every count divided by the number of shots, in the order of the keys.
\<close>

definition frequencies_of :: "(string \<times> int) list \<Rightarrow> int \<Rightarrow> (string \<times> rat) list" where
  "frequencies_of counts s = map (\<lambda>p. (rev (fst p), of_int (snd p) / of_int s)) counts"

text \<open>
  Modelled from the spec: \<open>_sort_phases\<close> of \<open>phase_estimation_result\<close> is not among the
  sources. The spec: "Resulting distribution is then re-sorted so keys iterate in
  increasing numeric phase order (bitstring interpreted as an unsigned binary fraction,
  most-significant-bit leftmost after reversal). Sort key: numeric value of the
  bit-reversed bitstring." A character other than \<open>1\<close> reads as the digit zero.
\<close>

definition bitstring_value :: "string \<Rightarrow> nat" where
  "bitstring_value k = foldl (\<lambda>n c. 2 * n + (if c = CHR ''1'' then 1 else 0)) 0 k"

definition sort_phases :: "(string \<times> 'v) list \<Rightarrow> (string \<times> 'v) list" where
  "sort_phases phases = sort_key (\<lambda>p. bitstring_value (fst p)) phases"

text \<open>
  Modelled from the spec: \<open>qiskit.quantum_info.partial_trace\<close> and \<open>probabilities\<close> are
  not among the sources. The spec: "trace out (marginalize over) the unitary-acted
  register, leaving a reduced density description over the evaluation register only; take
  its diagonal as the probability for each binary index." Amplitudes are exact complex
  numbers; index \<open>i + 2 ^ n * j\<close> has the evaluation register in state \<open>i\<close>.
\<close>

definition abs_squared :: "complex \<Rightarrow> real" where
  "abs_squared z = Re z * Re z + Im z * Im z"

definition partial_trace_probabilities ::
  "complex list \<Rightarrow> nat \<Rightarrow> nat \<Rightarrow> exn + real list" where
  "partial_trace_probabilities state_vec n m =
     (if length state_vec \<noteq> 2 ^ (n + m) then
        Inl (QiskitError ''Invalid qargs for the state dimensions.'')
      else Inr (map (\<lambda>i. sum_list (map (\<lambda>j. abs_squared (state_vec ! (i + 2 ^ n * j)))
                                      [0 ..< 2 ^ m]))
                  [0 ..< 2 ^ n]))"

datatype phases = Probabilities "real list" | Frequencies "rat Counts"

definition compute_phases :: "PhaseEstimation \<Rightarrow> nat option \<Rightarrow> Result \<Rightarrow> exn + phases" where
  "compute_phases self num_unitary_qubits circuit_result =
     (case quantum_instance self of
        None \<Rightarrow> Inl no_is_statevector
      | Some qi \<Rightarrow>
          if is_statevector qi then
            (case get_statevector circuit_result of
               Inl e \<Rightarrow> Inl e
             | Inr state_vec \<Rightarrow>
                 (case num_evaluation_qubits self of
                    None \<Rightarrow> Inl no_num_evaluation_qubits
                  | Some n \<Rightarrow>
                      (case num_unitary_qubits of
                         None \<Rightarrow> Inl (TypeError ''unsupported operand type(s) for +'')
                       | Some m \<Rightarrow>
                           (case partial_trace_probabilities state_vec n m of
                              Inl e \<Rightarrow> Inl e
                            | Inr p \<Rightarrow> Inr (Probabilities p)))))
          else
            (case results circuit_result of
               [] \<Rightarrow> Inl (IndexError ''list index out of range'')
             | r # rs \<Rightarrow>
                 let num_shots = shots r in
                 (case get_counts circuit_result of
                    Inl e \<Rightarrow> Inl e
                  | Inr counts \<Rightarrow>
                      (case reversed_frequencies (items counts) num_shots
                              (map fst (items counts)) [] of
                         Inl e \<Rightarrow> Inl e
                       | Inr phases \<Rightarrow>
                           Inr (Frequencies
                                  \<lparr> items = sort_phases phases,
                                    memory_slots = memory_slots counts,
                                    creg_sizes = creg_sizes counts \<rparr>)))))"

section \<open>Top-level estimate\<close>

record PhaseEstimationResult =
  result_num_evaluation_qubits :: nat
  circuit_result :: Result
  result_phases :: phases

definition only_one_msg :: string where
  "only_one_msg = ''Only one of `pe_circuit` and `unitary` may be passed.''"

definition one_of_msg :: string where
  "one_of_msg = ''One of `pe_circuit` and `unitary` must be passed.''"

text \<open>The last three statements of \<open>estimate\<close>: run, post-process, package.\<close>

definition execute_and_package ::
  "PhaseEstimation \<Rightarrow> nat \<Rightarrow> ref \<Rightarrow> nat option \<Rightarrow> world
     \<Rightarrow> (exn + PhaseEstimationResult) \<times> world" where
  "execute_and_package self n pe_circuit num_unitary_qubits w =
     (case quantum_instance self of
        None \<Rightarrow> (Inl no_execute, w)
      | Some qi \<Rightarrow>
          let w1 = w\<lparr>executed := executed w @ [heap w ! pe_circuit]\<rparr> in
          (case execute qi (heap w ! pe_circuit) of
             Inl e \<Rightarrow> (Inl e, w1)
           | Inr res \<Rightarrow>
               (case compute_phases self num_unitary_qubits res of
                  Inl e \<Rightarrow> (Inl e, w1)
                | Inr ph \<Rightarrow>
                    (Inr \<lparr> result_num_evaluation_qubits = n,
                           circuit_result = res,
                           result_phases = ph \<rparr>, w1))))"

definition estimate ::
  "PhaseEstimation \<Rightarrow> ref option \<Rightarrow> ref option \<Rightarrow> ref option \<Rightarrow> nat option \<Rightarrow> world
     \<Rightarrow> (exn + PhaseEstimationResult) \<times> world" where
  "estimate self unitary state_preparation pe_circuit num_unitary_qubits w =
     (case num_evaluation_qubits self of
        None \<Rightarrow> (Inl no_num_evaluation_qubits, w)
      | Some n \<Rightarrow>
          (case unitary of
             Some u \<Rightarrow>
               (case pe_circuit of
                  Some pc \<Rightarrow> (Inl (ValueError only_one_msg), w)
                | None \<Rightarrow>
                    (case construct_circuit self u state_preparation w of
                       (Inl e, w1) \<Rightarrow> (Inl e, w1)
                     | (Inr pc, w1) \<Rightarrow>
                         execute_and_package self n pc (Some (num_qubits (heap w1 ! u))) w1))
           | None \<Rightarrow>
               (case pe_circuit of
                  Some pc \<Rightarrow>
                    (case add_measurement_if_required self pc w of
                       (Inl e, w1) \<Rightarrow> (Inl e, w1)
                     | (Inr u, w1) \<Rightarrow>
                         execute_and_package self n pc num_unitary_qubits w1)
                | None \<Rightarrow> (Inl (ValueError one_of_msg), w))))"

section \<open>Example inputs\<close>

text \<open>
  The spec's example: evaluation width 2, the identity on one qubit, and a sampling
  executor that reports \<open>{"00": 50, "10": 50}\<close> for 100 shots. A second executor gives
  exact amplitudes.
\<close>

definition example_counts :: "int Counts" where
  "example_counts =
     \<lparr> items = [(''00'', 50), (''10'', 50)],
       memory_slots = Some 2,
       creg_sizes = Some [(''meas'', 2)] \<rparr>"

definition example_result :: Result where
  "example_result =
     \<lparr> results = [\<lparr> shots = 100 \<rparr>],
       get_counts = Inr example_counts,
       get_statevector = Inl (QiskitError ''No statevector for experiment'') \<rparr>"

definition sampling_instance :: QuantumInstance where
  "sampling_instance = \<lparr> is_statevector = False, execute = (\<lambda>c. Inr example_result) \<rparr>"

definition statevector_result :: Result where
  "statevector_result =
     \<lparr> results = [\<lparr> shots = 1 \<rparr>],
       get_counts = Inl (QiskitError ''No counts for experiment''),
       get_statevector = Inr [1, 0, 0, 0, 0, 0, 0, 0] \<rparr>"

definition statevector_instance :: QuantumInstance where
  "statevector_instance =
     \<lparr> is_statevector = True, execute = (\<lambda>c. Inr statevector_result) \<rparr>"

definition identity_circuit :: QuantumCircuit where
  "identity_circuit =
     \<lparr> num_qubits = 1, cregs = [], data = [Instruction (Gate ''id'') [0] []] \<rparr>"

definition preparation_circuit :: QuantumCircuit where
  "preparation_circuit =
     \<lparr> num_qubits = 1, cregs = [], data = [Instruction (Gate ''x'') [0] []] \<rparr>"

definition supplied_circuit :: QuantumCircuit where
  "supplied_circuit = PhaseEstimation_template 2 identity_circuit"

definition example_world :: world where
  "example_world =
     \<lparr> heap = [identity_circuit, preparation_circuit, supplied_circuit], executed = [] \<rparr>"

definition sampling_estimator :: PhaseEstimation where
  "sampling_estimator = init (Some 2) (Some (Instance sampling_instance))"

definition statevector_estimator :: PhaseEstimation where
  "statevector_estimator = init (Some 2) (Some (Backend statevector_instance))"

definition unconfigured_estimator :: PhaseEstimation where
  "unconfigured_estimator = init None (Some (Instance sampling_instance))"

section \<open>Construction without an evaluation width\<close>

text \<open>
  Claim C10. An object constructed with \<open>num_evaluation_qubits = None\<close> has no
  attribute \<open>_num_evaluation_qubits\<close> (one constructed with a number has it), so every
  call of \<open>construct_circuit\<close> and of \<open>estimate\<close>, whatever its arguments, fails with
  the attribute error, the store untouched: no default width is used.
\<close>

theorem init_None_attribute_error:
  "num_evaluation_qubits (init None qi) = None
   \<and> num_evaluation_qubits (init (Some n) qi) = Some n
   \<and> construct_circuit (init None qi) unitary state_preparation w
       = (Inl no_num_evaluation_qubits, w)
   \<and> estimate (init None qi) unitary' state_preparation pe_circuit num_unitary_qubits w
       = (Inl no_num_evaluation_qubits, w)
   \<and> exn_class no_num_evaluation_qubits = ''AttributeError''"
  by (simp add: init_def construct_circuit_def estimate_def no_num_evaluation_qubits_def
      AttributeError_def)

theorem init_None_attribute_error_witness:
  "fst (estimate unconfigured_estimator None None (Some 2) (Some 1) example_world)
     = Inl (Exn ''AttributeError''
             ''PhaseEstimation object has no attribute _num_evaluation_qubits'')"
  using init_None_attribute_error
    [where qi = "Some (Instance sampling_instance)" and w = example_world
       and unitary' = None and state_preparation = None and pe_circuit = "Some 2"
       and num_unitary_qubits = "Some 1"]
  by (simp add: unconfigured_estimator_def no_num_evaluation_qubits_def AttributeError_def)

section \<open>The argument check of estimate\<close>

text \<open>
  Claim C8. When both or neither of \<open>unitary\<close> and \<open>pe_circuit\<close> are passed,
  \<open>estimate\<close> raises at once: the store it returns is the store it was given, so no
  circuit was built, no circuit object was changed and the executor was not called. The
  error is the \<open>ValueError\<close> of the check (or the attribute error of the first statement,
  when the object has no evaluation width).
\<close>

theorem estimate_contract_violation_atomic:
  assumes "(unitary \<noteq> None \<and> pe_circuit \<noteq> None) \<or> (unitary = None \<and> pe_circuit = None)"
  shows "estimate self unitary state_preparation pe_circuit num_unitary_qubits w =
           (Inl (case num_evaluation_qubits self of
                   None \<Rightarrow> no_num_evaluation_qubits
                 | Some n \<Rightarrow> ValueError (if unitary = None then one_of_msg else only_one_msg)),
            w)"
  using assms by (auto simp: estimate_def split: option.splits)

theorem estimate_contract_violation_atomic_witness:
  "estimate sampling_estimator (Some 0) (Some 1) (Some 2) None example_world
     = (Inl (ValueError only_one_msg), example_world)"
  using estimate_contract_violation_atomic
    [of "Some 0" "Some 2" sampling_estimator "Some 1" None example_world]
  by (simp add: sampling_estimator_def init_def)

text \<open>
  Claim C1, as the code has it. On an object that has its evaluation width: both
  \<open>unitary\<close> and \<open>pe_circuit\<close> passed is a \<open>ValueError\<close> "Only one of `pe_circuit` and
  `unitary` may be passed."; neither passed is a \<open>ValueError\<close> "One of `pe_circuit` and
  `unitary` must be passed."; with exactly one passed the check raises nothing: an error
  of the call is then one of circuit construction, of adding the measurement, of the
  executor or of the post-processing.
\<close>

theorem estimate_argument_check:
  assumes "num_evaluation_qubits self = Some n"
  shows "(unitary \<noteq> None \<and> pe_circuit \<noteq> None \<longrightarrow>
            estimate self unitary state_preparation pe_circuit num_unitary_qubits w
              = (Inl (ValueError only_one_msg), w))
       \<and> (unitary = None \<and> pe_circuit = None \<longrightarrow>
            estimate self unitary state_preparation pe_circuit num_unitary_qubits w
              = (Inl (ValueError one_of_msg), w))
       \<and> (\<forall>u e. unitary = Some u \<and> pe_circuit = None
              \<and> fst (estimate self unitary state_preparation pe_circuit num_unitary_qubits w)
                    = Inl e \<longrightarrow>
            fst (construct_circuit self u state_preparation w) = Inl e
            \<or> (\<exists>qi c. quantum_instance self = Some qi
                  \<and> (execute qi c = Inl e
                       \<or> (\<exists>r m. execute qi c = Inr r \<and> compute_phases self m r = Inl e))))
       \<and> (\<forall>pc e. unitary = None \<and> pe_circuit = Some pc
              \<and> fst (estimate self unitary state_preparation pe_circuit num_unitary_qubits w)
                    = Inl e \<longrightarrow>
            fst (add_measurement_if_required self pc w) = Inl e
            \<or> (\<exists>qi c. quantum_instance self = Some qi
                  \<and> (execute qi c = Inl e
                       \<or> (\<exists>r m. execute qi c = Inr r \<and> compute_phases self m r = Inl e))))"
proof (intro conjI allI impI)
  assume "unitary \<noteq> None \<and> pe_circuit \<noteq> None"
  with assms show "estimate self unitary state_preparation pe_circuit num_unitary_qubits w
      = (Inl (ValueError only_one_msg), w)"
    by (auto simp: estimate_def)
next
  assume "unitary = None \<and> pe_circuit = None"
  with assms show "estimate self unitary state_preparation pe_circuit num_unitary_qubits w
      = (Inl (ValueError one_of_msg), w)"
    by (simp add: estimate_def)
next
  fix u e
  assume h: "unitary = Some u \<and> pe_circuit = None
    \<and> fst (estimate self unitary state_preparation pe_circuit num_unitary_qubits w) = Inl e"
  obtain r w1 where c: "construct_circuit self u state_preparation w = (r, w1)"
    by (cases "construct_circuit self u state_preparation w")
  show "fst (construct_circuit self u state_preparation w) = Inl e
      \<or> (\<exists>qi c. quantum_instance self = Some qi
            \<and> (execute qi c = Inl e
                 \<or> (\<exists>r m. execute qi c = Inr r \<and> compute_phases self m r = Inl e)))"
  proof (cases r)
    case (Inl e')
    with h c assms show ?thesis by (auto simp: estimate_def)
  next
    case (Inr pc)
    with h c assms show ?thesis
      by (auto simp: estimate_def execute_and_package_def Let_def no_execute_def
          construct_circuit_def alloc_def add_measurement_if_required_def
          split: option.splits sum.splits if_splits prod.splits)
  qed
next
  fix pc e
  assume h: "unitary = None \<and> pe_circuit = Some pc
    \<and> fst (estimate self unitary state_preparation pe_circuit num_unitary_qubits w) = Inl e"
  obtain r w1 where c: "add_measurement_if_required self pc w = (r, w1)"
    by (cases "add_measurement_if_required self pc w")
  show "fst (add_measurement_if_required self pc w) = Inl e
      \<or> (\<exists>qi c. quantum_instance self = Some qi
            \<and> (execute qi c = Inl e
                 \<or> (\<exists>r m. execute qi c = Inr r \<and> compute_phases self m r = Inl e)))"
  proof (cases r)
    case (Inl e')
    with h c assms show ?thesis by (auto simp: estimate_def)
  next
    case (Inr x)
    with h c assms show ?thesis
      by (auto simp: estimate_def execute_and_package_def Let_def no_execute_def
          add_measurement_if_required_def
          split: option.splits sum.splits if_splits)
  qed
qed

theorem estimate_argument_check_witness:
  "num_evaluation_qubits sampling_estimator = Some 2
   \<and> estimate sampling_estimator None None None None example_world
       = (Inl (ValueError one_of_msg), example_world)
   \<and> estimate sampling_estimator (Some 0) None (Some 2) None example_world
       = (Inl (ValueError only_one_msg), example_world)"
proof -
  have h: "num_evaluation_qubits sampling_estimator = Some 2"
    by (simp add: sampling_estimator_def init_def)
  show ?thesis
    using h
      estimate_argument_check [OF h, of None None None None example_world]
      estimate_argument_check [OF h, of "Some 0" "Some 2" None None example_world]
    by simp
qed

text \<open>
  The claim as the spec words it fails: the exception is a \<open>ValueError\<close> with another
  message text, not a \<open>ConfigurationError\<close>; and on an object without evaluation width
  the attribute error of the first statement comes before the check.
\<close>

theorem estimate_ConfigurationError_counterexample:
  "fst (estimate sampling_estimator None None None None example_world)
     = Inl (Exn ''ValueError'' ''One of `pe_circuit` and `unitary` must be passed.'')
   \<and> fst (estimate sampling_estimator None None None None example_world)
     \<noteq> Inl (Exn ''ConfigurationError'' ''one of `pe_circuit` and `unitary` must be passed'')
   \<and> fst (estimate sampling_estimator (Some 0) None (Some 2) None example_world)
     = Inl (Exn ''ValueError'' ''Only one of `pe_circuit` and `unitary` may be passed.'')
   \<and> fst (estimate unconfigured_estimator None None None None example_world)
     = Inl (Exn ''AttributeError''
             ''PhaseEstimation object has no attribute _num_evaluation_qubits'')"
  by (simp add: estimate_def sampling_estimator_def unconfigured_estimator_def init_def
      ValueError_def one_of_msg_def only_one_msg_def no_num_evaluation_qubits_def
      AttributeError_def)

section \<open>Measurement\<close>



section \<open>Circuit construction\<close>

lemma remap_range:
  assumes "\<forall>q \<in> set (qargs i). q < m"
  shows "remap [n ..< n + m] i = Instruction (operation i) (map (\<lambda>q. n + q) (qargs i)) (cargs i)"
  using assms by (simp add: remap_def)

lemma map_remap_range:
  assumes "\<forall>i \<in> set is. \<forall>q \<in> set (qargs i). q < m"
  shows "map (remap [n ..< n + m]) is
       = map (\<lambda>i. Instruction (operation i) (map (\<lambda>q. n + q) (qargs i)) (cargs i)) is"
  using assms by (simp add: remap_range)

lemma compose_front_template:
  assumes "num_qubits sp = num_qubits u" and "num_clbits sp = 0"
  shows "compose_front (PhaseEstimation_template n u) sp [n ..< n + num_qubits u]
       = Inr ((PhaseEstimation_template n u)
               \<lparr>data := map (remap [n ..< n + num_qubits u]) (data sp)
                        @ data (PhaseEstimation_template n u)\<rparr>)"
  using assms by (simp add: compose_front_def PhaseEstimation_template_def list_ex_iff)

text \<open>
  Claim C5. For a state preparation on as many qubits as the unitary (without classical
  bits, its instructions on its own qubits), \<open>construct_circuit\<close> returns a new circuit
  whose first instructions are those of the state preparation, qubit \<open>q\<close> placed on
  \<open>n + q\<close>, followed by the template and by nothing but the barrier and the measurements:
  every state-preparation instruction lies on the range from \<open>n\<close> up to, not including,
  \<open>n + num_unitary_qubits\<close>, none on the evaluation qubits \<open>0 .. n - 1\<close>. The circuits
  already in the store are unchanged.
\<close>

theorem construct_circuit_state_preparation_range:
  assumes "num_evaluation_qubits self = Some n"
    and "quantum_instance self = Some qi"
    and "unitary < length (heap w)" and "sp < length (heap w)"
    and "num_qubits (heap w ! sp) = num_qubits (heap w ! unitary)"
    and "num_clbits (heap w ! sp) = 0"
    and "\<forall>i \<in> set (data (heap w ! sp)). \<forall>q \<in> set (qargs i). q < num_qubits (heap w ! sp)"
  shows "\<exists>w' rest.
           construct_circuit self unitary (Some sp) w = (Inr (length (heap w)), w')
         \<and> data (heap w' ! length (heap w)) =
             map (\<lambda>i. Instruction (operation i) (map (\<lambda>q. n + q) (qargs i)) (cargs i))
               (data (heap w ! sp))
             @ data (PhaseEstimation_template n (heap w ! unitary)) @ rest
         \<and> (\<forall>i \<in> set rest. operation i = Barrier \<or> operation i = Measure)
         \<and> (\<forall>i \<in> set (take (length (data (heap w ! sp))) (data (heap w' ! length (heap w)))).
               \<forall>q \<in> set (qargs i). n \<le> q \<and> q < n + num_qubits (heap w ! unitary))
         \<and> take (length (heap w)) (heap w') = heap w"
proof -
  let ?u = "heap w ! unitary" and ?s = "heap w ! sp" and ?r = "length (heap w)"
  let ?front = "map (\<lambda>i. Instruction (operation i) (map (\<lambda>q. n + q) (qargs i)) (cargs i)) (data ?s)"
  let ?c = "(PhaseEstimation_template n ?u)\<lparr>data := ?front @ data (PhaseEstimation_template n ?u)\<rparr>"
  let ?w2 = "w\<lparr>heap := heap w @ [?c]\<rparr>"
  have m: "map (remap [n ..< n + num_qubits ?u]) (data ?s) = ?front"
    using assms(5,7) by (intro map_remap_range) simp
  have cf: "compose_front (PhaseEstimation_template n ?u) ?s [n ..< n + num_qubits ?u] = Inr ?c"
    using compose_front_template [OF assms(5,6)] m by simp
  have comp: "compose_inplace_front ?r sp [n ..< n + num_qubits ?u]
                (w\<lparr>heap := heap w @ [PhaseEstimation_template n ?u]\<rparr>) = (Inr (), ?w2)"
    using assms(4) cf by (simp add: compose_inplace_front_def nth_append put_def)
  have rng: "\<forall>i \<in> set ?front. \<forall>q \<in> set (qargs i). n \<le> q \<and> q < n + num_qubits ?u"
    using assms(5,7) by auto
  show ?thesis
  proof (cases "is_statevector qi")
    case True
    then have "construct_circuit self unitary (Some sp) w = (Inr ?r, ?w2)"
      using assms(1,2) comp
      by (simp add: construct_circuit_def alloc_def add_measurement_if_required_def)
    moreover have "data (heap ?w2 ! ?r) = ?front @ data (PhaseEstimation_template n ?u) @ []"
      by simp
    moreover have "\<forall>i \<in> set (take (length (data ?s)) (data (heap ?w2 ! ?r))).
               \<forall>q \<in> set (qargs i). n \<le> q \<and> q < n + num_qubits ?u"
      using rng by simp
    moreover have "take ?r (heap ?w2) = heap w" by simp
    ultimately show ?thesis by (intro exI [of _ ?w2] exI [of _ "[]"]) simp
  next
    case False
    let ?rest = "Instruction Barrier [0 ..< n + num_qubits ?u] []
                 # map (\<lambda>i. Instruction Measure [i] [i]) [0 ..< n]"
    let ?c3 = "?c\<lparr>cregs := [(''meas'', n)],
                  data := ?front @ data (PhaseEstimation_template n ?u) @ ?rest\<rparr>"
    let ?w3 = "w\<lparr>heap := heap w @ [?c3]\<rparr>"
    have z: "map (\<lambda>(q, b). Instruction Measure [q] [b]) (zip [0 ..< n] [0 ..< n])
             = map (\<lambda>i. Instruction Measure [i] [i]) [0 ..< n]"
      by (simp add: zip_same_conv_map)
    have am: "add_measurement_if_required self ?r ?w2 = (Inr (), ?w3)"
      using assms(1,2) False
      by (simp add: add_measurement_if_required_def put_def add_register_def barrier_def
          measure_qubits_def z Let_def PhaseEstimation_template_def)
    have "construct_circuit self unitary (Some sp) w = (Inr ?r, ?w3)"
      using assms(1) comp am by (simp add: construct_circuit_def alloc_def)
    moreover have "data (heap ?w3 ! ?r) = ?front @ data (PhaseEstimation_template n ?u) @ ?rest"
      by simp
    moreover have "\<forall>i \<in> set ?rest. operation i = Barrier \<or> operation i = Measure"
      by auto
    moreover have "\<forall>i \<in> set (take (length (data ?s)) (data (heap ?w3 ! ?r))).
               \<forall>q \<in> set (qargs i). n \<le> q \<and> q < n + num_qubits ?u"
      using rng by simp
    moreover have "take ?r (heap ?w3) = heap w" by simp
    ultimately show ?thesis by (intro exI [of _ ?w3] exI [of _ ?rest]) simp
  qed
qed

theorem construct_circuit_state_preparation_range_witness:
  "fst (construct_circuit sampling_estimator 0 (Some 1) example_world) = Inr 3
   \<and> take 2 (data (heap (snd (construct_circuit sampling_estimator 0 (Some 1) example_world)) ! 3))
       = [Instruction (Gate ''x'') [2] [],
          Instruction (PhaseEstimationGate 2 [Instruction (Gate ''id'') [0] []]) [0, 1, 2] []]"
proof -
  have n: "num_evaluation_qubits sampling_estimator = Some 2"
    and q: "quantum_instance sampling_estimator = Some sampling_instance"
    by (simp_all add: sampling_estimator_def init_def)
  have u: "0 < length (heap example_world)" and s: "1 < length (heap example_world)"
    by (simp_all add: example_world_def)
  have e: "num_qubits (heap example_world ! 1) = num_qubits (heap example_world ! 0)"
    by (simp add: example_world_def identity_circuit_def preparation_circuit_def)
  have c: "num_clbits (heap example_world ! 1) = 0"
    by (simp add: example_world_def preparation_circuit_def num_clbits_def)
  have a: "\<forall>i \<in> set (data (heap example_world ! 1)). \<forall>q \<in> set (qargs i).
             q < num_qubits (heap example_world ! 1)"
    by (simp add: example_world_def preparation_circuit_def)
  have t: "[0 ..< 3] = [0, 1, 2]"
    by (simp add: upt_rec)
  from construct_circuit_state_preparation_range [OF n q u s e c a]
  obtain w' rest where
    r: "construct_circuit sampling_estimator 0 (Some 1) example_world
          = (Inr (length (heap example_world)), w')"
    and d: "data (heap w' ! length (heap example_world)) =
             map (\<lambda>i. Instruction (operation i) (map (\<lambda>q. 2 + q) (qargs i)) (cargs i))
               (data (heap example_world ! 1))
             @ data (PhaseEstimation_template 2 (heap example_world ! 0)) @ rest"
    by blast
  have l: "length (heap example_world) = 3"
    by (simp add: example_world_def)
  show ?thesis
    using d unfolding r l
    by (simp add: example_world_def preparation_circuit_def identity_circuit_def
        PhaseEstimation_template_def t)
qed

subsection \<open>What the builder leaves alone\<close>

lemma add_measurement_if_required_frame:
  assumes "add_measurement_if_required self pc w = (r, w')"
  shows "length (heap w') = length (heap w)" and "executed w' = executed w"
    and "i \<noteq> pc \<Longrightarrow> heap w' ! i = heap w ! i"
  using assms
  by (auto simp: add_measurement_if_required_def put_def Let_def
      split: option.splits if_splits)

lemma add_measurement_if_required_instance:
  assumes "add_measurement_if_required self pc w = (Inr x, w')"
  shows "quantum_instance self \<noteq> None"
  using assms by (auto simp: add_measurement_if_required_def split: option.splits)

lemma compose_inplace_front_frame:
  assumes "compose_inplace_front c other qubits w = (r, w')"
  shows "length (heap w') = length (heap w)" and "executed w' = executed w"
    and "i \<noteq> c \<Longrightarrow> heap w' ! i = heap w ! i"
  using assms
  by (auto simp: compose_inplace_front_def put_def split: sum.splits)

lemma construct_circuit_frame:
  assumes "construct_circuit self u sp w = (Inr r, w')"
  shows "r = length (heap w)" and "length (heap w') = Suc (length (heap w))"
    and "executed w' = executed w"
    and "i < length (heap w) \<Longrightarrow> heap w' ! i = heap w ! i"
    and "quantum_instance self \<noteq> None"
proof -
  from assms obtain n where n: "num_evaluation_qubits self = Some n"
    by (auto simp: construct_circuit_def split: option.splits)
  let ?w1 = "w\<lparr>heap := heap w @ [PhaseEstimation_template n (heap w ! u)]\<rparr>"
  let ?r = "length (heap w)"
  obtain x w2 where c: "(case sp of None \<Rightarrow> (Inr (), ?w1)
      | Some s \<Rightarrow> compose_inplace_front ?r s [n ..< n + num_qubits (heap w ! u)] ?w1) = (x, w2)"
    by (cases "case sp of None \<Rightarrow> (Inr (), ?w1)
      | Some s \<Rightarrow> compose_inplace_front ?r s [n ..< n + num_qubits (heap w ! u)] ?w1")
  have f2: "length (heap w2) = Suc ?r" "executed w2 = executed w"
    "\<And>i. i < ?r \<Longrightarrow> heap w2 ! i = heap w ! i"
    using c compose_inplace_front_frame [of ?r _ "[n ..< n + num_qubits (heap w ! u)]" ?w1 x w2]
    by (auto split: option.splits simp: nth_append)
  from assms n c obtain y where
    a: "add_measurement_if_required self ?r w2 = (Inr y, w')" and r: "r = ?r"
    by (auto simp: construct_circuit_def alloc_def Let_def split: sum.splits prod.splits)
  show "r = length (heap w)" by (rule r)
  show "length (heap w') = Suc (length (heap w))"
    using add_measurement_if_required_frame(1) [OF a] f2 by simp
  show "executed w' = executed w"
    using add_measurement_if_required_frame(2) [OF a] f2 by simp
  show "quantum_instance self \<noteq> None"
    by (rule add_measurement_if_required_instance [OF a])
  show "heap w' ! i = heap w ! i" if "i < length (heap w)"
    using add_measurement_if_required_frame(3) [OF a, of i] f2(3) [OF that] that by simp
qed

section \<open>Estimate with a unitary\<close>

text \<open>
  Claim C4. When \<open>unitary\<close> is passed and \<open>construct_circuit(unitary,
  state_preparation)\<close> returns a circuit, that circuit, as \<open>construct_circuit\<close> left it,
  is the one and only circuit handed to the executor, and the post-processing gets the
  unitary's qubit count: the caller's \<open>num_unitary_qubits\<close> has no influence on the call.
\<close>

theorem estimate_unitary_circuit_and_width:
  assumes "construct_circuit self u state_preparation w = (Inr pc, w1)"
    and "quantum_instance self = Some qi"
    and "num_evaluation_qubits self = Some n"
    and "u < length (heap w)"
  shows "executed (snd (estimate self (Some u) state_preparation None num_unitary_qubits w))
           = executed w @ [heap w1 ! pc]
       \<and> fst (estimate self (Some u) state_preparation None num_unitary_qubits w)
           = (case execute qi (heap w1 ! pc) of
                Inl e \<Rightarrow> Inl e
              | Inr res \<Rightarrow>
                  (case compute_phases self (Some (num_qubits (heap w ! u))) res of
                     Inl e \<Rightarrow> Inl e
                   | Inr ph \<Rightarrow>
                       Inr \<lparr> result_num_evaluation_qubits = n,
                             circuit_result = res,
                             result_phases = ph \<rparr>))
       \<and> (\<forall>m. estimate self (Some u) state_preparation None m w
              = estimate self (Some u) state_preparation None num_unitary_qubits w)"
proof -
  have h: "heap w1 ! u = heap w ! u"
    using construct_circuit_frame(4) [OF assms(1) assms(4)] .
  have x: "executed w1 = executed w"
    using construct_circuit_frame(3) [OF assms(1)] .
  have e: "\<And>m. estimate self (Some u) state_preparation None m w
             = execute_and_package self n pc (Some (num_qubits (heap w ! u))) w1"
    using assms(1,3) h by (simp add: estimate_def)
  show ?thesis
    unfolding e using assms(2) x
    by (simp add: execute_and_package_def Let_def split: sum.splits)
qed

theorem estimate_unitary_circuit_and_width_witness:
  "executed (snd (estimate sampling_estimator (Some 0) (Some 1) None (Some 7) example_world))
     = [heap (snd (construct_circuit sampling_estimator 0 (Some 1) example_world)) ! 3]
   \<and> estimate sampling_estimator (Some 0) (Some 1) None (Some 7) example_world
     = estimate sampling_estimator (Some 0) (Some 1) None None example_world"
proof -
  obtain w1 where c: "construct_circuit sampling_estimator 0 (Some 1) example_world = (Inr 3, w1)"
    by (simp add: construct_circuit_def sampling_estimator_def init_def example_world_def
        alloc_def compose_inplace_front_def compose_front_def PhaseEstimation_template_def
        identity_circuit_def preparation_circuit_def num_clbits_def put_def
        add_measurement_if_required_def sampling_instance_def Let_def)
  have q: "quantum_instance sampling_estimator = Some sampling_instance"
    and n: "num_evaluation_qubits sampling_estimator = Some 2"
    by (simp_all add: sampling_estimator_def init_def)
  have u: "0 < length (heap example_world)"
    by (simp add: example_world_def)
  have x: "executed example_world = []"
    by (simp add: example_world_def)
  note t = estimate_unitary_circuit_and_width [OF c q n u, of "Some 7"]
  from t have a: "executed (snd (estimate sampling_estimator (Some 0) (Some 1) None (Some 7)
      example_world)) = executed example_world @ [heap w1 ! 3]"
    by blast
  from t have b: "estimate sampling_estimator (Some 0) (Some 1) None None example_world
      = estimate sampling_estimator (Some 0) (Some 1) None (Some 7) example_world"
    by blast
  show ?thesis
    using a b c x by simp
qed

section \<open>What a successful estimate does to the store\<close>

lemma execute_and_package_frame:
  assumes "execute_and_package self n pc m w = (r, w')"
  shows "heap w' = heap w"
  using assms
  by (auto simp: execute_and_package_def Let_def split: option.splits sum.splits)

lemma execute_and_package_executed:
  assumes "execute_and_package self n pc m w = (Inr res, w')"
  shows "executed w' = executed w @ [heap w ! pc]"
  using assms
  by (auto simp: execute_and_package_def Let_def split: option.splits sum.splits)

text \<open>
  Claim C9 fails as stated: with a sampling executor, \<open>estimate(pe_circuit=C)\<close> succeeds
  and leaves the caller's circuit \<open>C\<close> with a classical register, a barrier and two
  measurements it did not have.
\<close>

theorem estimate_pe_circuit_mutated_counterexample:
  "\<not> isl (fst (estimate sampling_estimator None None (Some 2) (Some 1) example_world))
   \<and> heap example_world ! 2
       = \<lparr> num_qubits = 3, cregs = [],
           data = [Instruction (PhaseEstimationGate 2 [Instruction (Gate ''id'') [0] []])
                     [0, 1, 2] []] \<rparr>
   \<and> heap (snd (estimate sampling_estimator None None (Some 2) (Some 1) example_world)) ! 2
       = \<lparr> num_qubits = 3, cregs = [(''meas'', 2)],
           data = [Instruction (PhaseEstimationGate 2 [Instruction (Gate ''id'') [0] []])
                     [0, 1, 2] [],
                   Instruction Barrier [0, 1, 2] [],
                   Instruction Measure [0] [0], Instruction Measure [1] [1]] \<rparr>"
proof -
  have t: "[0 ..< 3] = [0, 1, 2]" "[0 ..< 2] = [0, 1]"
    by (simp_all add: upt_rec)
  have r: "reversed_frequencies [(''00'', 50), (''10'', 50)] 100 [''00'', ''10''] []
             = Inr [(''00'', 1 / 2), (''01'', 1 / 2)]"
    by simp
  show ?thesis
    by (simp add: estimate_def sampling_estimator_def init_def example_world_def
        add_measurement_if_required_def sampling_instance_def put_def add_register_def
        barrier_def measure_qubits_def supplied_circuit_def PhaseEstimation_template_def
        identity_circuit_def execute_and_package_def compute_phases_def example_result_def
        example_counts_def r t Let_def)
qed

text \<open>
  Claim C9, as the code has it. After a successful \<open>estimate\<close>: every circuit object
  that was in the store, other than the one passed as \<open>pe_circuit\<close>, is unchanged; with
  \<open>unitary\<close> passed, exactly one circuit was allocated and it is the one that was run;
  with \<open>pe_circuit\<close> passed, nothing was allocated and the caller's object is the one
  that was run, unchanged under a statevector executor and, under a sampling executor,
  extended in place by the register \<open>meas\<close>, the barrier and the measurements of the
  evaluation qubits.
\<close>

theorem estimate_success_store:
  assumes "estimate self unitary state_preparation pe_circuit num_unitary_qubits w
             = (Inr res, w')"
  shows "(\<forall>r < length (heap w). pe_circuit \<noteq> Some r \<longrightarrow> heap w' ! r = heap w ! r)
       \<and> (unitary \<noteq> None \<longrightarrow>
            length (heap w') = Suc (length (heap w))
            \<and> executed w' = executed w @ [heap w' ! length (heap w)])
       \<and> (\<forall>pc. pe_circuit = Some pc \<longrightarrow>
            length (heap w') = length (heap w)
            \<and> executed w' = executed w @ [heap w' ! pc])
       \<and> (\<forall>pc qi. pe_circuit = Some pc \<and> quantum_instance self = Some qi
              \<and> is_statevector qi \<longrightarrow> heap w' = heap w)
       \<and> (\<forall>pc qi n. pe_circuit = Some pc \<and> pc < length (heap w)
              \<and> quantum_instance self = Some qi \<and> \<not> is_statevector qi
              \<and> num_evaluation_qubits self = Some n \<longrightarrow>
            heap w' = (heap w)[pc :=
              (heap w ! pc)
                \<lparr>cregs := cregs (heap w ! pc) @ [(''meas'', n)],
                 data := data (heap w ! pc)
                         @ [Instruction Barrier [0 ..< num_qubits (heap w ! pc)] []]
                         @ map (\<lambda>i. Instruction Measure [i] [i]) [0 ..< n]\<rparr>])"
proof -
  from assms obtain n where n: "num_evaluation_qubits self = Some n"
    by (auto simp: estimate_def split: option.splits)
  show ?thesis
  proof (cases unitary)
    case (Some u)
    with assms n have p: "pe_circuit = None"
      by (auto simp: estimate_def split: option.splits)
    from assms n Some p obtain pc w1 where
      c: "construct_circuit self u state_preparation w = (Inr pc, w1)"
      and x: "execute_and_package self n pc (Some (num_qubits (heap w1 ! u))) w1 = (Inr res, w')"
      by (auto simp: estimate_def split: sum.splits prod.splits)
    have h: "heap w' = heap w1"
      by (rule execute_and_package_frame [OF x])
    have "\<forall>r < length (heap w). heap w' ! r = heap w ! r"
      using construct_circuit_frame(4) [OF c] h by simp
    moreover have "length (heap w') = Suc (length (heap w))"
      using construct_circuit_frame(2) [OF c] h by simp
    moreover have "executed w' = executed w @ [heap w' ! length (heap w)]"
      using execute_and_package_executed [OF x] construct_circuit_frame(1,3) [OF c] h by simp
    ultimately show ?thesis using p by simp
  next
    case None
    with assms n obtain pc where p: "pe_circuit = Some pc"
      by (auto simp: estimate_def split: option.splits)
    from assms n None p obtain y w1 where
      a: "add_measurement_if_required self pc w = (Inr y, w1)"
      and x: "execute_and_package self n pc num_unitary_qubits w1 = (Inr res, w')"
      by (auto simp: estimate_def split: sum.splits prod.splits)
    have h: "heap w' = heap w1"
      by (rule execute_and_package_frame [OF x])
    have 1: "\<forall>r < length (heap w). Some pc \<noteq> Some r \<longrightarrow> heap w' ! r = heap w ! r"
      using add_measurement_if_required_frame(3) [OF a] h by auto
    have 2: "length (heap w') = length (heap w)"
      using add_measurement_if_required_frame(1) [OF a] h by simp
    have 3: "executed w' = executed w @ [heap w' ! pc]"
      using execute_and_package_executed [OF x] add_measurement_if_required_frame(2) [OF a] h
      by simp
    have 4: "heap w' = heap w" if "quantum_instance self = Some qi" "is_statevector qi" for qi
      using a h that by (simp add: add_measurement_if_required_def)
    have 5: "heap w' = (heap w)[pc :=
              (heap w ! pc)
                \<lparr>cregs := cregs (heap w ! pc) @ [(''meas'', m)],
                 data := data (heap w ! pc)
                         @ [Instruction Barrier [0 ..< num_qubits (heap w ! pc)] []]
                         @ map (\<lambda>i. Instruction Measure [i] [i]) [0 ..< m]\<rparr>]"
      if "pc < length (heap w)" "quantum_instance self = Some qi" "\<not> is_statevector qi"
        "num_evaluation_qubits self = Some m" for qi m
    proof -
      have z: "map (\<lambda>(q, b). Instruction Measure [q] [b]) (zip [0 ..< m] [0 ..< m])
             = map (\<lambda>i. Instruction Measure [i] [i]) [0 ..< m]"
        by (simp add: zip_same_conv_map)
      from a that have "heap w1 = (heap w)[pc :=
              (heap w ! pc)
                \<lparr>cregs := cregs (heap w ! pc) @ [(''meas'', m)],
                 data := data (heap w ! pc)
                         @ [Instruction Barrier [0 ..< num_qubits (heap w ! pc)] []]
                         @ map (\<lambda>i. Instruction Measure [i] [i]) [0 ..< m]\<rparr>]"
        by (auto simp: add_measurement_if_required_def put_def add_register_def barrier_def
            measure_qubits_def z Let_def)
      with h show ?thesis by simp
    qed
    show ?thesis
      using None p 1 2 3 4 5 by auto
  qed
qed

theorem estimate_success_store_witness:
  "heap (snd (estimate statevector_estimator None None (Some 2) (Some 1) example_world))
     = heap example_world
   \<and> heap (snd (estimate sampling_estimator (Some 0) (Some 1) None None example_world)) ! 0
     = identity_circuit
   \<and> length (heap (snd (estimate sampling_estimator (Some 0) (Some 1) None None example_world)))
     = 4"
proof -
  have r: "reversed_frequencies [(''00'', 50), (''10'', 50)] 100 [''00'', ''10''] []
             = Inr [(''00'', 1 / 2), (''01'', 1 / 2)]"
    by simp
  have "\<exists>res w'. estimate statevector_estimator None None (Some 2) (Some 1) example_world
          = (Inr res, w')"
    by (simp add: estimate_def statevector_estimator_def init_def example_world_def
        add_measurement_if_required_def statevector_instance_def
        execute_and_package_def compute_phases_def statevector_result_def
        partial_trace_probabilities_def Let_def)
  then obtain res w' where
    a: "estimate statevector_estimator None None (Some 2) (Some 1) example_world = (Inr res, w')"
    by blast
  have q: "quantum_instance statevector_estimator = Some statevector_instance"
    and v: "is_statevector statevector_instance"
    by (simp_all add: statevector_estimator_def init_def statevector_instance_def)
  from estimate_success_store [OF a] q v have 1: "heap w' = heap example_world"
    by blast
  have "\<exists>res w'. estimate sampling_estimator (Some 0) (Some 1) None None example_world
          = (Inr res, w')"
    by (simp add: estimate_def sampling_estimator_def init_def example_world_def
        construct_circuit_def alloc_def compose_inplace_front_def compose_front_def
        PhaseEstimation_template_def identity_circuit_def preparation_circuit_def
        num_clbits_def put_def add_measurement_if_required_def sampling_instance_def
        execute_and_package_def compute_phases_def example_result_def
        example_counts_def r Let_def)
  then obtain res2 w2 where
    b: "estimate sampling_estimator (Some 0) (Some 1) None None example_world = (Inr res2, w2)"
    by blast
  have l: "length (heap example_world) = 3" and i: "heap example_world ! 0 = identity_circuit"
    by (simp_all add: example_world_def)
  from estimate_success_store [OF b] l have 2: "heap w2 ! 0 = heap example_world ! 0"
    by simp
  from estimate_success_store [OF b] l have 3: "length (heap w2) = 4"
    by simp
  show ?thesis
    unfolding a b using 1 2 3 i by simp
qed

section \<open>The sampling path of the post-processor\<close>

subsection \<open>The comprehension on a dictionary\<close>

lemma dict_set_fresh:
  "k \<notin> fst ` set d \<Longrightarrow> dict_set k v d = d @ [(k, v)]"
  by (induction d) auto

lemma dict_set_keys:
  "fst ` set (dict_set k v d) = insert k (fst ` set d)"
  by (induction d) auto


lemma reversed_frequencies_distinct:
  assumes "s \<noteq> 0"
    and "\<forall>k \<in> set ks. map_of counts k = Some (f k)"
    and "distinct (map fst acc @ map rev ks)"
  shows "reversed_frequencies counts s ks acc
       = Inr (acc @ map (\<lambda>k. (rev k, of_int (f k) / of_int s)) ks)"
  using assms(2,3)
proof (induction ks arbitrary: acc)
  case Nil
  show ?case by simp
next
  case (Cons k ks)
  from Cons.prems(2) have fresh: "rev k \<notin> fst ` set acc"
    by auto
  let ?acc = "acc @ [(rev k, of_int (f k) / of_int s)]"
  have d: "distinct (map fst ?acc @ map rev ks)"
    using Cons.prems(2) by auto
  have "reversed_frequencies counts s (k # ks) acc = reversed_frequencies counts s ks ?acc"
    using Cons.prems(1) assms(1) fresh by (simp add: dict_set_fresh)
  also have "\<dots> = Inr (?acc @ map (\<lambda>k. (rev k, of_int (f k) / of_int s)) ks)"
    using Cons.prems(1) d by (intro Cons.IH) simp_all
  finally show ?case by simp
qed

lemma reversed_frequencies_dict:
  assumes "s \<noteq> 0" and "distinct (map fst counts)"
  shows "reversed_frequencies counts s (map fst counts) [] = Inr (frequencies_of counts s)"
proof -
  have a: "\<forall>k \<in> set (map fst counts). map_of counts k = Some (the (map_of counts k))"
    using assms(2) by (auto simp: rev_image_eqI)
  have d: "distinct (map fst ([] :: (string \<times> rat) list) @ map rev (map fst counts))"
    using assms(2) by (simp add: distinct_map inj_on_def)
  have "map (\<lambda>k. (rev k, (of_int (the (map_of counts k)) :: rat) / of_int s)) (map fst counts)
      = frequencies_of counts s"
    using assms(2) by (auto simp: frequencies_of_def)
  with reversed_frequencies_distinct [OF assms(1) a d] show ?thesis
    by simp
qed

lemma compute_phases_sampling_eq:
  assumes "quantum_instance self = Some qi" and "\<not> is_statevector qi"
    and "results res = r # rs" and "shots r \<noteq> 0"
    and "get_counts res = Inr counts"
    and "distinct (map fst (items counts))"
  shows "compute_phases self num_unitary_qubits res
       = Inr (Frequencies \<lparr> items = sort_phases (frequencies_of (items counts) (shots r)),
                             memory_slots = memory_slots counts,
                             creg_sizes = creg_sizes counts \<rparr>)"
  using assms reversed_frequencies_dict [OF assms(4,6)]
  by (simp add: compute_phases_def)

subsection \<open>Sorting keeps the entries\<close>



lemma sort_phases_sum:
  fixes ps :: "(string \<times> 'v :: comm_monoid_add) list"
  shows "sum_list (map snd (sort_phases ps)) = sum_list (map snd ps)"
proof -
  have "mset (map snd (sort_phases ps)) = mset (map snd ps)"
    by (simp add: sort_phases_def)
  then show ?thesis
    by (metis sum_mset_sum_list)
qed


lemma frequencies_of_sum:
  "sum_list (map snd (frequencies_of counts s)) = of_int (sum_list (map snd counts)) / of_int s"
  by (induction counts) (simp_all add: frequencies_of_def add_divide_distrib)

subsection \<open>Keys, frequencies, order and total\<close>





text \<open>
  Claim C7. With a sampling executor and counts that add up to the positive number of
  shots, the frequencies of the returned distribution add up to one. The quotients are
  exact rationals here, so the sum is exactly one; the rounding of the machine's floating
  point numbers is outside this model.
\<close>

theorem compute_phases_sampling_sum:
  assumes "quantum_instance self = Some qi" and "\<not> is_statevector qi"
    and "results res = r # rs" and "0 < shots r"
    and "get_counts res = Inr counts"
    and "distinct (map fst (items counts))"
    and "sum_list (map snd (items counts)) = shots r"
  shows "\<exists>out. compute_phases self num_unitary_qubits res = Inr (Frequencies out)
            \<and> sum_list (map snd (items out)) = 1"
proof -
  let ?F = "frequencies_of (items counts) (shots r)"
  let ?out = "\<lparr> items = sort_phases ?F, memory_slots = memory_slots counts,
                creg_sizes = creg_sizes counts \<rparr>"
  from assms(4) have s: "shots r \<noteq> 0" by simp
  have e: "compute_phases self num_unitary_qubits res = Inr (Frequencies ?out)"
    by (rule compute_phases_sampling_eq [OF assms(1,2,3) s assms(5,6)])
  have "sum_list (map snd (items ?out)) = sum_list (map snd ?F)"
    by (simp add: sort_phases_sum)
  also have "\<dots> = of_int (shots r) / of_int (shots r)"
    by (simp add: frequencies_of_sum assms(7))
  also have "\<dots> = 1"
    using s by simp
  finally show ?thesis
    using e by blast
qed

theorem compute_phases_sampling_sum_witness:
  "sum_list (map snd (items example_counts)) = 100
   \<and> (\<exists>out. compute_phases sampling_estimator None example_result = Inr (Frequencies out)
          \<and> sum_list (map snd (items out)) = 1)"
proof -
  have q: "quantum_instance sampling_estimator = Some sampling_instance"
    and v: "\<not> is_statevector sampling_instance"
    and r: "results example_result = \<lparr> shots = 100 \<rparr> # []"
    and s: "0 < shots \<lparr> shots = 100 \<rparr>"
    and c: "get_counts example_result = Inr example_counts"
    and d: "distinct (map fst (items example_counts))"
    and t: "sum_list (map snd (items example_counts)) = shots \<lparr> shots = 100 \<rparr>"
    by (simp_all add: sampling_estimator_def init_def sampling_instance_def example_result_def
        example_counts_def)
  from compute_phases_sampling_sum [OF q v r s c d t, of None] t
  show ?thesis by simp
qed

end
